theory Spec2Isabelle
  imports Complex_Main "HOL-Library.AList"
begin

section \<open>Cell values\<close>

text \<open>
  The decoder hands \<open>processFile\<close> JavaScript values: a cell is \<open>undefined\<close> (a hole of
  the row array or an index past its end), \<open>null\<close>, a boolean, a number, a string or a
  \<open>Date\<close> object (the workbook is read with \<open>cellDates: true\<close>).

  A JavaScript number is an IEEE double. The embedding keeps the three special values
  apart and represents a finite double by the rational it denotes; \<open>-0\<close> and \<open>+0\<close> are the
  same value \<open>Finite 0\<close> (the source only tests numbers with \<open>!== 0\<close>, \<open>=== 0\<close>,
  \<open>=== 1\<close> and truthiness, which do not tell them apart). Arithmetic on finite values is
  exact: rounding and overflow of doubles are outside the embedding.

  A string is a sequence of code units; the embedding covers the code units below 256,
  one \<^typ>\<open>char\<close> each.
\<close>

datatype number = Finite rat | NaN | PosInf | NegInf

datatype date = Date int | InvalidDate

datatype jsval =
    Undefined
  | Null
  | Bool bool
  | Num number
  | Str string
  | DateV date

datatype jstype = TyUndefined | TyObject | TyBoolean | TyNumber | TyString

text \<open>\<open>typeof v\<close>; \<open>typeof null\<close> and \<open>typeof\<close> of a Date are both \<open>'object'\<close>.\<close>

fun typeof :: "jsval \<Rightarrow> jstype" where
  "typeof Undefined = TyUndefined"
| "typeof Null = TyObject"
| "typeof (Bool b) = TyBoolean"
| "typeof (Num n) = TyNumber"
| "typeof (Str s) = TyString"
| "typeof (DateV d) = TyObject"

text \<open>
  \<open>a === b\<close> where \<open>b\<close> is a primitive: \<open>NaN\<close> equals nothing, and an object (a Date)
  never equals a primitive.
\<close>

fun strictEquals :: "jsval \<Rightarrow> jsval \<Rightarrow> bool" where
  "strictEquals Undefined Undefined = True"
| "strictEquals Null Null = True"
| "strictEquals (Bool a) (Bool b) = (a = b)"
| "strictEquals (Num a) (Num b) = (a \<noteq> NaN \<and> a = b)"
| "strictEquals (Str a) (Str b) = (a = b)"
| "strictEquals _ _ = False"

text \<open>The values that fail an \<open>if (v)\<close> test: \<open>undefined\<close>, \<open>null\<close>, \<open>false\<close>, \<open>0\<close>, \<open>NaN\<close>, \<open>""\<close>.\<close>

fun truthy :: "jsval \<Rightarrow> bool" where
  "truthy Undefined = False"
| "truthy Null = False"
| "truthy (Bool b) = b"
| "truthy (Num n) = (n \<noteq> Finite 0 \<and> n \<noteq> NaN)"
| "truthy (Str s) = (s \<noteq> [])"
| "truthy (DateV d) = True"

section \<open>String operations of the host\<close>

text \<open>
  \<open>String.prototype.toLowerCase\<close> on code units below 256: the letters A to Z and the
  Latin-1 capitals U+00C0 to U+00DE (without the multiplication sign U+00D7) move up by 32.
\<close>

definition isUpper :: "char \<Rightarrow> bool" where
  "isUpper c = (let n = (of_char c :: nat) in
     (65 \<le> n \<and> n \<le> 90) \<or> (192 \<le> n \<and> n \<le> 222 \<and> n \<noteq> 215))"

definition lowerChar :: "char \<Rightarrow> char" where
  "lowerChar c = (if isUpper c then char_of ((of_char c :: nat) + 32) else c)"

definition toLowerCase :: "string \<Rightarrow> string" where
  "toLowerCase s = map lowerChar s"

text \<open>
  White space and line terminators of ECMAScript below 256: TAB, LF, VT, FF, CR, space and
  the no-break space U+00A0.
\<close>

definition isWhiteSpace :: "char \<Rightarrow> bool" where
  "isWhiteSpace c = ((of_char c :: nat) \<in> {9, 10, 11, 12, 13, 32, 160})"

definition trimStart :: "string \<Rightarrow> string" where
  "trimStart s = dropWhile isWhiteSpace s"

definition trim :: "string \<Rightarrow> string" where
  "trim s = rev (dropWhile isWhiteSpace (rev (dropWhile isWhiteSpace s)))"

text \<open>\<open>Array.prototype.includes\<close> on an array of strings.\<close>

definition arrayIncludes :: "string list \<Rightarrow> string \<Rightarrow> bool" where
  "arrayIncludes xs x = (x \<in> set xs)"

subsection \<open>parseFloat\<close>

text \<open>
  \<open>parseFloat\<close> skips leading white space and reads the longest prefix that is a
  \<open>StrDecimalLiteral\<close>: an optional sign, then \<open>Infinity\<close>, or digits with an optional
  fraction and exponent, or a dot with digits and an optional exponent. No such prefix
  gives \<open>NaN\<close>.
\<close>

definition isDigit :: "char \<Rightarrow> bool" where
  "isDigit c = (48 \<le> (of_char c :: nat) \<and> (of_char c :: nat) \<le> 57)"

definition digitsValue :: "string \<Rightarrow> int" where
  "digitsValue ds = foldl (\<lambda>a c. 10 * a + ((of_char c :: int) - 48)) 0 ds"

text \<open>The exponent part \<open>e\<close>, optional sign, digits; \<open>None\<close> when the text has none.\<close>

definition exponentPart :: "string \<Rightarrow> (bool \<times> int) option" where
  "exponentPart r =
     (case r of
        [] \<Rightarrow> None
      | c # r1 \<Rightarrow>
          if c = CHR ''e'' \<or> c = CHR ''E'' then
            (let (negative, r2) =
                   (case r1 of
                      [] \<Rightarrow> (False, r1)
                    | d # r3 \<Rightarrow> if d = CHR ''-'' then (True, r3)
                               else if d = CHR ''+'' then (False, r3) else (False, r1));
                 ds = takeWhile isDigit r2
             in if ds = [] then None else Some (negative, digitsValue ds))
          else None)"

definition scale :: "rat \<Rightarrow> (bool \<times> int) option \<Rightarrow> rat" where
  "scale m ex =
     (case ex of
        None \<Rightarrow> m
      | Some (negative, n) \<Rightarrow> if negative then m / 10 ^ nat n else m * 10 ^ nat n)"

definition unsignedLiteral :: "string \<Rightarrow> number" where
  "unsignedLiteral u =
     (if take 8 u = ''Infinity'' then PosInf
      else
        (let ip = takeWhile isDigit u; r1 = dropWhile isDigit u
         in case r1 of
              [] \<Rightarrow> if ip = [] then NaN else Finite (of_int (digitsValue ip))
            | c # r \<Rightarrow>
                if c = CHR ''.'' then
                  (let fp = takeWhile isDigit r; r2 = dropWhile isDigit r
                   in if ip = [] \<and> fp = [] then NaN
                      else Finite (scale (of_int (digitsValue ip)
                                          + of_int (digitsValue fp) / 10 ^ length fp)
                                         (exponentPart r2)))
                else if ip = [] then NaN
                else Finite (scale (of_int (digitsValue ip)) (exponentPart r1))))"

fun negate :: "number \<Rightarrow> number" where
  "negate (Finite q) = Finite (- q)"
| "negate NaN = NaN"
| "negate PosInf = NegInf"
| "negate NegInf = PosInf"

definition parseFloat :: "string \<Rightarrow> number" where
  "parseFloat s =
     (case trimStart s of
        [] \<Rightarrow> NaN
      | c # r \<Rightarrow>
          if c = CHR ''-'' then negate (unsignedLiteral r)
          else if c = CHR ''+'' then unsignedLiteral r
          else unsignedLiteral (c # r))"

section \<open>The three presence predicates\<close>

text \<open>
  The aggregator's classification, lines 148 to 161 of \<open>App.js\<close>: \<open>isPresent\<close> starts as
  \<open>false\<close> and is assigned only for a boolean, a number or a string that is neither
  \<open>undefined\<close> nor \<open>null\<close>.
\<close>

definition presentWords :: "string list" where
  "presentWords = [''ja'', ''yes'', ''y'', ''true'', ''1'']"

definition absentWords :: "string list" where
  "absentWords = [''nee'', ''no'', ''n'', ''false'', ''0'']"

definition isPresent :: "jsval \<Rightarrow> bool" where
  "isPresent presentValue =
     (if \<not> strictEquals presentValue Undefined \<and> \<not> strictEquals presentValue Null then
        (if typeof presentValue = TyBoolean
         then (case presentValue of Bool b \<Rightarrow> b | _ \<Rightarrow> False)
         else if typeof presentValue = TyNumber
         then \<not> strictEquals presentValue (Num (Finite 0))
         else if typeof presentValue = TyString
         then (case presentValue of
                 Str s \<Rightarrow> arrayIncludes presentWords (trim (toLowerCase s))
               | _ \<Rightarrow> False)
         else False)
      else False)"

text \<open>
  \<open>isPresentClassName\<close>, lines 277 to 291: the row is highlighted (\<open>'bg-red-200'\<close>) for
  the explicit non-present values, and for a string whose lower-cased form (not trimmed)
  is in the absent list or is not in the present list.
\<close>

definition isPresentClassName :: "jsval \<Rightarrow> string" where
  "isPresentClassName present =
     (if strictEquals present Undefined
         \<or> strictEquals present Null
         \<or> strictEquals present (Bool False)
         \<or> strictEquals present (Num (Finite 0))
         \<or> strictEquals present (Str [])
         \<or> (case present of
               Str s \<Rightarrow> arrayIncludes absentWords (toLowerCase s)
                        \<or> \<not> arrayIncludes presentWords (toLowerCase s)
             | _ \<Rightarrow> False)
      then ''bg-red-200'' else [])"

text \<open>\<open>formatPresentDisplay\<close>, lines 294 to 304: the label shown and exported.\<close>

definition formatPresentDisplay :: "jsval \<Rightarrow> string" where
  "formatPresentDisplay present =
     (case (case present of
              Str s \<Rightarrow>
                (let normalized = trim (toLowerCase s)
                 in if arrayIncludes presentWords normalized then Some ''Yes''
                    else if arrayIncludes absentWords normalized then Some ''No''
                    else None)
            | _ \<Rightarrow> None) of
        Some label \<Rightarrow> label
      | None \<Rightarrow>
          if strictEquals present (Bool True) \<or> strictEquals present (Num (Finite 1))
          then ''Yes'' else ''No'')"

section \<open>Record normalizer\<close>

text \<open>
  \<open>headers.findIndex(p)\<close>: the position of the first element that satisfies \<open>p\<close>, or
  \<open>-1\<close>.
\<close>

fun findIndexFrom :: "('a \<Rightarrow> bool) \<Rightarrow> int \<Rightarrow> 'a list \<Rightarrow> int" where
  "findIndexFrom p i [] = - 1"
| "findIndexFrom p i (x # xs) = (if p x then i else findIndexFrom p (i + 1) xs)"

definition findIndex :: "('a \<Rightarrow> bool) \<Rightarrow> 'a list \<Rightarrow> int" where
  "findIndex p xs = findIndexFrom p 0 xs"

definition leidinggevendeIndex :: "jsval list \<Rightarrow> int" where
  "leidinggevendeIndex headers = findIndex (\<lambda>h. strictEquals h (Str ''Leidinggevende'')) headers"

definition parttimeIndex :: "jsval list \<Rightarrow> int" where
  "parttimeIndex headers = findIndex (\<lambda>h. strictEquals h (Str ''Parttime (%)'')) headers"

definition isParticipationHeader :: "jsval \<Rightarrow> bool" where
  "isParticipationHeader h =
     (strictEquals h (Str ''Aanwezig'') \<or> strictEquals h (Str ''Present'')
      \<or> strictEquals h (Str ''Participation''))"

definition aanwezigIndex :: "jsval list \<Rightarrow> int" where
  "aanwezigIndex headers = findIndex isParticipationHeader headers"

text \<open>
  \<open>row[i]\<close>: a row is an array that may be shorter than the header list and may have
  holes (written \<open>Undefined\<close> here); reading outside it gives \<open>undefined\<close>.
\<close>

definition cell :: "jsval list \<Rightarrow> int \<Rightarrow> jsval" where
  "cell row i = (if 0 \<le> i \<and> i < int (length row) then row ! nat i else Undefined)"

text \<open>
  \<open>row[5] ? new Date(row[5]) : null\<close>: the Date object is kept as the value it was
  constructed from; nothing below reads its time.
\<close>

datatype dateField = NewDate jsval | NoDate

definition toDateField :: "jsval \<Rightarrow> dateField" where
  "toDateField v = (if truthy v then NewDate v else NoDate)"

text \<open>
  One EmployeeRecord; \<open>id'\<close> and \<open>function'\<close> are the source's \<open>id\<close> and \<open>function\<close>.
\<close>

record employee =
  id' :: jsval
  name :: jsval
  function' :: jsval
  employmentType :: jsval
  employeeType :: jsval
  startDate :: dateField
  endDate :: dateField
  employer :: jsval
  manager :: jsval
  partTimePercentage :: jsval
  present :: jsval

text \<open>The callback of \<open>rows.map\<close>, lines 107 to 129.\<close>

definition toEmployee :: "int \<Rightarrow> int \<Rightarrow> int \<Rightarrow> jsval list \<Rightarrow> employee" where
  "toEmployee lIdx pIdx aIdx row =
     (let presentValue = (if aIdx \<noteq> - 1 then cell row aIdx else Undefined);
          presentValue = (if strictEquals presentValue Undefined then Str ''nee''
                          else presentValue)
      in \<lparr> id' = cell row 0,
           name = cell row 1,
           function' = cell row 2,
           employmentType = cell row 3,
           employeeType = cell row 4,
           startDate = toDateField (cell row 5),
           endDate = toDateField (cell row 6),
           employer = cell row 9,
           manager = cell row lIdx,
           partTimePercentage = cell row pIdx,
           present = presentValue \<rparr>)"

text \<open>
  The errors \<open>processFile\<close> reports through \<open>setError\<close>: \<open>MissingColumns\<close> is the
  message of line 101, \<open>ProcessingFailed\<close> the message of the \<open>catch\<close> of line 190.
\<close>

datatype appError = MissingColumns | ProcessingFailed

text \<open>Lines 94 to 129: the column check, then one record per row.\<close>

definition formattedData :: "jsval list \<Rightarrow> jsval list list \<Rightarrow> appError + employee list" where
  "formattedData headers rows =
     (let lIdx = leidinggevendeIndex headers;
          pIdx = parttimeIndex headers;
          aIdx = aanwezigIndex headers
      in if lIdx = - 1 \<or> pIdx = - 1 then Inl MissingColumns
         else Inr (map (toEmployee lIdx pIdx aIdx) rows))"

section \<open>Aggregator\<close>

text \<open>
  The value of a \<open>totalPartTimePercentage\<close> property. It starts as the number 0 on a
  group; \<open>+=\<close> with a Date operand turns it into a string, whose characters are not
  tracked (\<open>TotalStr\<close>). \<open>TotalUndefined\<close> is the property before its first assignment
  on an object that is not a group.
\<close>

datatype total = TotalUndefined | TotalNum number | TotalStr

record managerStat =
  totalEmployees :: int
  presentEmployees :: int
  absentEmployees :: int
  totalPartTimePercentage :: total
  avgPartTimePercentage :: jsval

text \<open>
  The conversions of numbers and dates to text are supplied from outside: their digits
  depend on the double behind a number and on the time zone.
\<close>

record formatting =
  numberToString :: "number \<Rightarrow> string"
  dateToString :: "date \<Rightarrow> string"
  toFixed2 :: "number \<Rightarrow> string"

text \<open>\<open>managerStats[employee.manager]\<close> converts the manager to a property key.\<close>

fun toPropertyKey :: "formatting \<Rightarrow> jsval \<Rightarrow> string" where
  "toPropertyKey fmt Undefined = ''undefined''"
| "toPropertyKey fmt Null = ''null''"
| "toPropertyKey fmt (Bool b) = (if b then ''true'' else ''false'')"
| "toPropertyKey fmt (Num n) = numberToString fmt n"
| "toPropertyKey fmt (Str s) = s"
| "toPropertyKey fmt (DateV d) = dateToString fmt d"

text \<open>Addition of numbers; finite values add exactly.\<close>

fun addNumber :: "number \<Rightarrow> number \<Rightarrow> number" where
  "addNumber NaN y = NaN"
| "addNumber x NaN = NaN"
| "addNumber (Finite a) (Finite b) = Finite (a + b)"
| "addNumber (Finite a) PosInf = PosInf"
| "addNumber (Finite a) NegInf = NegInf"
| "addNumber PosInf (Finite b) = PosInf"
| "addNumber NegInf (Finite b) = NegInf"
| "addNumber PosInf PosInf = PosInf"
| "addNumber NegInf NegInf = NegInf"
| "addNumber PosInf NegInf = NaN"
| "addNumber NegInf PosInf = NaN"

text \<open>
  \<open>ToNumber\<close> of a primitive that is not a string (\<open>plusTotal\<close> asks for no other).
\<close>

fun toNumber :: "jsval \<Rightarrow> number" where
  "toNumber Undefined = NaN"
| "toNumber Null = Finite 0"
| "toNumber (Bool b) = (if b then Finite 1 else Finite 0)"
| "toNumber (Num n) = n"
| "toNumber v = NaN"

text \<open>
  \<open>t + v\<close>: a string on either side, or a Date (whose primitive is a string), gives a
  string; otherwise both sides are converted to numbers and added.
\<close>

fun plusTotal :: "total \<Rightarrow> jsval \<Rightarrow> total" where
  "plusTotal TotalStr v = TotalStr"
| "plusTotal t (Str s) = TotalStr"
| "plusTotal t (DateV d) = TotalStr"
| "plusTotal TotalUndefined v = TotalNum (addNumber NaN (toNumber v))"
| "plusTotal (TotalNum a) v = TotalNum (addNumber a (toNumber v))"

text \<open>
  Lines 169 to 174: a truthy percentage is added, a string through \<open>parseFloat\<close>, any
  other value as it is.
\<close>

definition addPartTime :: "jsval \<Rightarrow> total \<Rightarrow> total" where
  "addPartTime p t =
     (if truthy p
      then plusTotal t (if typeof p = TyString
                        then (case p of Str s \<Rightarrow> Num (parseFloat s) | _ \<Rightarrow> p)
                        else p)
      else t)"

definition newGroup :: managerStat where
  "newGroup = \<lparr> totalEmployees = 0, presentEmployees = 0, absentEmployees = 0,
                totalPartTimePercentage = TotalNum (Finite 0),
                avgPartTimePercentage = Num (Finite 0) \<rparr>"

text \<open>Lines 145 to 174 on the group of the employee's manager.\<close>

definition tally :: "employee \<Rightarrow> managerStat \<Rightarrow> managerStat" where
  "tally e g =
     (let g1 = g\<lparr>totalEmployees := totalEmployees g + 1\<rparr>;
          g2 = (if isPresent (present e)
                then g1\<lparr>presentEmployees := presentEmployees g1 + 1\<rparr>
                else g1\<lparr>absentEmployees := absentEmployees g1 + 1\<rparr>)
      in g2\<lparr>totalPartTimePercentage :=
               addPartTime (partTimePercentage e) (totalPartTimePercentage g2)\<rparr>)"

text \<open>
  \<open>managerStats\<close> is an object literal, so \<open>managerStats[k]\<close> also finds what
  \<open>Object.prototype\<close> provides: eleven functions and \<open>__proto__\<close>, which is
  \<open>Object.prototype\<close> itself. For such a key the test \<open>!managerStats[k]\<close> fails, no group
  is created, and the counters are written to the object found. Those written to a
  function are read by nothing. Those written to \<open>Object.prototype\<close> are inherited by
  \<open>managerStats\<close>: the three counters become \<open>NaN\<close>, which is falsy and changes no test,
  and \<open>totalPartTimePercentage\<close> is kept in \<open>prototypeTotal\<close>. When that one is truthy,
  the key \<open>totalPartTimePercentage\<close> finds a primitive, and \<open>++\<close> on a property of a
  primitive throws a TypeError in module (strict) code.
\<close>

definition objectPrototypeFunctions :: "string list" where
  "objectPrototypeFunctions =
     [''constructor'', ''__defineGetter__'', ''__defineSetter__'', ''hasOwnProperty'',
      ''__lookupGetter__'', ''__lookupSetter__'', ''isPrototypeOf'',
      ''propertyIsEnumerable'', ''toString'', ''valueOf'', ''toLocaleString'']"

fun truthyTotal :: "total \<Rightarrow> bool" where
  "truthyTotal TotalUndefined = False"
| "truthyTotal (TotalNum n) = truthy (Num n)"
| "truthyTotal TotalStr = True"

record aggregation =
  groups :: "(string \<times> managerStat) list"
  prototypeTotal :: total

datatype jsError = TypeError

text \<open>The callback of \<open>formattedData.forEach\<close>, lines 133 to 176.\<close>

definition foldEmployee :: "formatting \<Rightarrow> aggregation \<Rightarrow> employee \<Rightarrow> jsError + aggregation" where
  "foldEmployee fmt st e =
     (if truthy (manager e) then
        (let k = toPropertyKey fmt (manager e)
         in case map_of (groups st) k of
              Some g \<Rightarrow> Inr (st\<lparr>groups := AList.update k (tally e g) (groups st)\<rparr>)
            | None \<Rightarrow>
                if k = ''__proto__''
                then Inr (st\<lparr>prototypeTotal :=
                               addPartTime (partTimePercentage e) (prototypeTotal st)\<rparr>)
                else if arrayIncludes objectPrototypeFunctions k then Inr st
                else if k = ''totalPartTimePercentage'' \<and> truthyTotal (prototypeTotal st)
                then Inl TypeError
                else Inr (st\<lparr>groups := groups st @ [(k, tally e newGroup)]\<rparr>))
      else Inr st)"

text \<open>
  \<open>forEach\<close>: the loop stops at the first exception; what was written before it stays
  written.
\<close>

fun forEachEmployee ::
  "formatting \<Rightarrow> aggregation \<Rightarrow> employee list \<Rightarrow> jsError option \<times> aggregation" where
  "forEachEmployee fmt st [] = (None, st)"
| "forEachEmployee fmt st (e # es) =
     (case foldEmployee fmt st e of
        Inl x \<Rightarrow> (Some x, st)
      | Inr st' \<Rightarrow> forEachEmployee fmt st' es)"

text \<open>\<open>const managerStats = {}\<close> followed by the loop.\<close>

definition managerStats ::
  "formatting \<Rightarrow> total \<Rightarrow> employee list \<Rightarrow> jsError option \<times> aggregation" where
  "managerStats fmt proto fd = forEachEmployee fmt \<lparr>groups = [], prototypeTotal = proto\<rparr> fd"

subsection \<open>Averages\<close>

text \<open>
  \<open>x / n\<close> for a counter \<open>n\<close>: in JavaScript a zero divisor raises nothing and gives
  \<open>NaN\<close> or an infinity.
\<close>

fun divideByCount :: "number \<Rightarrow> int \<Rightarrow> number" where
  "divideByCount NaN n = NaN"
| "divideByCount (Finite a) n =
     (if n = 0 then (if a = 0 then NaN else if 0 < a then PosInf else NegInf)
      else Finite (a / of_int n))"
| "divideByCount PosInf n = (if 0 \<le> n then PosInf else NegInf)"
| "divideByCount NegInf n = (if 0 \<le> n then NegInf else PosInf)"

text \<open>
  \<open>ToNumber\<close> of the running total. A string total contains the text of a Date, which
  is never a numeric literal.
\<close>

fun totalToNumber :: "total \<Rightarrow> number" where
  "totalToNumber TotalUndefined = NaN"
| "totalToNumber (TotalNum n) = n"
| "totalToNumber TotalStr = NaN"

text \<open>Lines 179 to 182, for one group and for all of them.\<close>

definition withAverage :: "formatting \<Rightarrow> managerStat \<Rightarrow> managerStat" where
  "withAverage fmt g =
     g\<lparr>avgPartTimePercentage :=
         Str (toFixed2 fmt (divideByCount (totalToNumber (totalPartTimePercentage g))
                                          (totalEmployees g)))\<rparr>"

definition calculateAverages ::
  "formatting \<Rightarrow> (string \<times> managerStat) list \<Rightarrow> (string \<times> managerStat) list" where
  "calculateAverages fmt gs = map (\<lambda>(k, g). (k, withAverage fmt g)) gs"

section \<open>processFile\<close>

text \<open>
  The decoded first sheet: the header row read cell by cell (lines 56 to 60) and the rows
  of \<open>sheet_to_json\<close> with \<open>header: 1\<close> (line 63), whose first row is the header row.
\<close>

record sheet =
  headers :: "jsval list"
  jsonData :: "jsval list list"

datatype tab = Upload | Structure | Employees | Statistics | Deploy

text \<open>
  The component state that the pipeline writes, and the one property of
  \<open>Object.prototype\<close> that it can write and read back. The file and the structure report
  are display data and are left out.
\<close>

record session =
  data :: "employee list"
  stats :: "(string \<times> managerStat) list"
  loading :: bool
  activeTab :: tab
  error :: "appError option"
  objectPrototypeTotal :: total

definition initialSession :: session where
  "initialSession = \<lparr> data = [], stats = [], loading = False, activeTab = Upload,
                       error = None, objectPrototypeTotal = TotalUndefined \<rparr>"

text \<open>
  \<open>processFile\<close> from the decoded sheet on (the body of \<open>reader.onload\<close>): the state
  after the callback has run. An exception in the callback is caught at line 188.
\<close>

definition processFile :: "formatting \<Rightarrow> session \<Rightarrow> sheet \<Rightarrow> session" where
  "processFile fmt s sh =
     (let s1 = s\<lparr>loading := True, error := None\<rparr>;
          rows = drop 1 (jsonData sh)
      in case formattedData (headers sh) rows of
           Inl err \<Rightarrow> s1\<lparr>error := Some err, loading := False\<rparr>
         | Inr fd \<Rightarrow>
             (case managerStats fmt (objectPrototypeTotal s1) fd of
                (Some x, agg) \<Rightarrow>
                  s1\<lparr>objectPrototypeTotal := prototypeTotal agg,
                     error := Some ProcessingFailed, loading := False\<rparr>
              | (None, agg) \<Rightarrow>
                  s1\<lparr>objectPrototypeTotal := prototypeTotal agg,
                     data := fd,
                     stats := calculateAverages fmt (groups agg),
                     activeTab := Structure, loading := False\<rparr>))"

section \<open>Re-export\<close>

text \<open>
  \<open>Object.entries\<close> lists the keys that are array indices first, in ascending numeric
  order, then the other keys in the order of their creation.
\<close>

definition isArrayIndex :: "string \<Rightarrow> bool" where
  "isArrayIndex k =
     (k \<noteq> [] \<and> list_all isDigit k \<and> (k = ''0'' \<or> hd k \<noteq> CHR ''0'')
      \<and> digitsValue k < 4294967295)"

definition objectEntries :: "(string \<times> 'a) list \<Rightarrow> (string \<times> 'a) list" where
  "objectEntries kvs =
     sort_key (\<lambda>kv. digitsValue (fst kv)) (filter (\<lambda>kv. isArrayIndex (fst kv)) kvs)
     @ filter (\<lambda>kv. \<not> isArrayIndex (fst kv)) kvs"

text \<open>A workbook: its sheets in order, each a name and an array of rows.\<close>

type_synonym workbook = "(string \<times> jsval list list) list"

definition employeesHeader :: "jsval list" where
  "employeesHeader = [Str ''Name'', Str ''Function'', Str ''PO'', Str ''Part-time %'',
                      Str ''Present'']"

definition statisticsHeader :: "jsval list" where
  "statisticsHeader = [Str ''Product Owner'', Str ''Total Employees'', Str ''Present'',
                       Str ''Absent'', Str ''Avg. Part-time %'']"

text \<open>
  \<open>downloadExcelWithHighlighting\<close>, lines 228 to 274: nothing is written when there is no
  record.
\<close>

definition downloadExcelWithHighlighting :: "session \<Rightarrow> workbook option" where
  "downloadExcelWithHighlighting s =
     (if data s = [] then None
      else
        (let wsData = employeesHeader #
               map (\<lambda>e. [name e, function' e, manager e, partTimePercentage e,
                          Str (formatPresentDisplay (present e))]) (data s);
             statsData = statisticsHeader #
               map (\<lambda>(m, stat). [Str m,
                                  Num (Finite (of_int (totalEmployees stat))),
                                  Num (Finite (of_int (presentEmployees stat))),
                                  Num (Finite (of_int (absentEmployees stat))),
                                  avgPartTimePercentage stat]) (objectEntries (stats s))
         in Some [(''Employees'', wsData), (''Statistics'', statsData)]))"

text \<open>
  Reading a written workbook back: \<open>processFile\<close> takes the first sheet, its first row
  as the headers and the rows after it as the data rows. Cells written from \<open>undefined\<close>
  or \<open>null\<close> do not exist in the sheet and read as holes; the other cells are taken to
  come back as they were written. Only the header row, five ASCII strings, decides what
  \<open>processFile\<close> does with the sheet.
\<close>

definition firstSheet :: "workbook \<Rightarrow> jsval list list" where
  "firstSheet wb = (case wb of [] \<Rightarrow> [] | (n, rows) # _ \<Rightarrow> rows)"

definition readBack :: "workbook \<Rightarrow> sheet" where
  "readBack wb =
     \<lparr> headers = (case firstSheet wb of [] \<Rightarrow> [] | h # _ \<Rightarrow> h),
        jsonData = map (map (\<lambda>v. if v = Null then Undefined else v)) (firstSheet wb) \<rparr>"

section \<open>The classification as the specification words it\<close>

text \<open>
  \<open>classifyPresence\<close>, written from the rules of section 4.2 of the specification, in
  their order: \<open>true\<close> and \<open>1\<close> are present; any other nonzero number is present and
  zero is absent; a text is present when its lower-cased, trimmed form is one of ja, yes,
  y, true, 1, and absent otherwise; \<open>undefined\<close>, \<open>null\<close> and the empty string are
  absent. The boolean \<open>false\<close> is absent (a boolean classifies as itself). The rules name
  no Date value, for which the result is \<open>None\<close>.
\<close>

definition recognizedTruthy :: "string set" where
  "recognizedTruthy = {''ja'', ''yes'', ''y'', ''true'', ''1''}"

definition classifyPresence :: "jsval \<Rightarrow> bool option" where
  "classifyPresence v =
     (if v = Bool True \<or> v = Num (Finite 1) then Some True
      else case v of
             Bool b \<Rightarrow> Some False
           | Num n \<Rightarrow> Some (n \<noteq> Finite 0)
           | Str s \<Rightarrow> if s = [] then Some False
                      else Some (trim (toLowerCase s) \<in> recognizedTruthy)
           | Undefined \<Rightarrow> Some False
           | Null \<Rightarrow> Some False
           | DateV d \<Rightarrow> None)"

section \<open>Inputs for the examples\<close>

text \<open>
  Decimal text of an integer that is not negative, and \<open>toFixed(2)\<close> on an exactly
  represented value: the sign, then the integer nearest to a hundred times the magnitude
  (the larger one on a tie) with a point before its last two digits.
\<close>

function showNat :: "int \<Rightarrow> string" where
  "showNat n = (if n < 10 then [char_of (48 + n)]
                else showNat (n div 10) @ [char_of (48 + n mod 10)])"
  by pat_completeness auto
termination
  by (relation "measure nat") auto

declare showNat.simps [simp del]

fun fixedTwo :: "number \<Rightarrow> string" where
  "fixedTwo NaN = ''NaN''"
| "fixedTwo PosInf = ''Infinity''"
| "fixedTwo NegInf = ''-Infinity''"
| "fixedTwo (Finite q) =
     (let n = \<lfloor>\<bar>q\<bar> * 100 + 1 / 2\<rfloor>
      in (if q < 0 then ''-'' else []) @ showNat (n div 100) @ ''.''
         @ [char_of (48 + n mod 100 div 10), char_of (48 + n mod 10)])"

text \<open>
  The formatting used in the examples. Their managers are strings, so the first two
  conversions are never called there.
\<close>

definition exampleFormatting :: formatting where
  "exampleFormatting = \<lparr> numberToString = (\<lambda>n. fixedTwo n),
                          dateToString = (\<lambda>d. ''Invalid Date''),
                          toFixed2 = fixedTwo \<rparr>"

text \<open>The header row of section 8, with a participation column after it.\<close>

definition exampleHeaders :: "jsval list" where
  "exampleHeaders = [Str ''ID'', Str ''Name'', Str ''Function'', Str ''Type'', Str ''EmpType'',
                     Str ''Start'', Str ''End'', Null, Null, Str ''Employer'',
                     Str ''Leidinggevende'', Str ''Parttime (%)'', Str ''Aanwezig'']"

definition exampleRow :: "string \<Rightarrow> string \<Rightarrow> jsval \<Rightarrow> jsval \<Rightarrow> jsval \<Rightarrow> jsval list" where
  "exampleRow i n m p a =
     [Str i, Str n, Str ''Engineer'', Str ''Vast'', Str ''Intern'', Undefined, Undefined,
      Undefined, Undefined, Str ''Acme'', m, p, a]"

text \<open>
  The scenario of section 8: two rows for Alice, one present at 50 percent, one absent at
  100 percent.
\<close>

definition aliceSheet :: sheet where
  "aliceSheet =
     \<lparr> headers = exampleHeaders,
        jsonData = [exampleHeaders,
                    exampleRow ''1'' ''Ann'' (Str ''Alice'') (Num (Finite 50)) (Str ''ja''),
                    exampleRow ''2'' ''Bob'' (Str ''Alice'') (Num (Finite 100)) (Str ''nee'')] \<rparr>"

definition aliceSession :: session where
  "aliceSession = processFile exampleFormatting initialSession aliceSheet"

text \<open>
  Two rows for Alice: the first has the text \<open>abc\<close> as its percentage, the second the
  number 50.
\<close>

definition nonNumericSheet :: sheet where
  "nonNumericSheet =
     \<lparr> headers = exampleHeaders,
        jsonData = [exampleHeaders,
                    exampleRow ''1'' ''Ann'' (Str ''Alice'') (Str ''abc'') (Str ''ja''),
                    exampleRow ''2'' ''Bob'' (Str ''Alice'') (Num (Finite 50)) (Str ''nee'')] \<rparr>"

section \<open>Facts about the column search\<close>

lemma strictEquals_Str: "strictEquals h (Str s) = (h = Str s)"
  by (cases h) auto

lemma findIndexFrom_range:
  "0 \<le> i \<Longrightarrow>
     findIndexFrom p i xs = - 1
     \<or> (i \<le> findIndexFrom p i xs \<and> findIndexFrom p i xs < i + int (length xs))"
proof (induction xs arbitrary: i)
  case Nil
  then show ?case by simp
next
  case (Cons x xs)
  from Cons.IH [of "i + 1"] Cons.prems show ?case by auto
qed

lemma findIndexFrom_none:
  "0 \<le> i \<Longrightarrow> (findIndexFrom p i xs = - 1) = (\<forall>x \<in> set xs. \<not> p x)"
proof (induction xs arbitrary: i)
  case Nil
  then show ?case by simp
next
  case (Cons x xs)
  from Cons.IH [of "i + 1"] Cons.prems show ?case by auto
qed

lemma findIndexFrom_first:
  "0 \<le> i \<Longrightarrow> findIndexFrom p i xs \<noteq> - 1 \<Longrightarrow>
     p (xs ! nat (findIndexFrom p i xs - i)) \<and>
     (\<forall>m < nat (findIndexFrom p i xs - i). \<not> p (xs ! m))"
proof (induction xs arbitrary: i)
  case Nil
  then show ?case by simp
next
  case (Cons x xs)
  show ?case
  proof (cases "p x")
    case True
    then show ?thesis by simp
  next
    case False
    with Cons.prems have ne: "findIndexFrom p (i + 1) xs \<noteq> - 1" by simp
    from Cons.prems have pos: "0 \<le> i + 1" by simp
    from findIndexFrom_range [OF pos, of p xs] ne
    have ge: "i + 1 \<le> findIndexFrom p (i + 1) xs" by auto
    define j where "j = nat (findIndexFrom p (i + 1) xs - (i + 1))"
    from ge have step: "nat (findIndexFrom p (i + 1) xs - i) = Suc j"
      by (simp add: j_def nat_diff_distrib)
    from Cons.IH [OF pos ne] have ih: "p (xs ! j)" "\<forall>m < j. \<not> p (xs ! m)"
      by (simp_all add: j_def)
    have "\<forall>m < Suc j. \<not> p ((x # xs) ! m)"
    proof (intro allI impI)
      fix m assume "m < Suc j"
      with ih(2) False show "\<not> p ((x # xs) ! m)" by (cases m) auto
    qed
    with ih(1) False step show ?thesis by simp
  qed
qed

lemma findIndex_none: "(findIndex p xs = - 1) = (\<forall>x \<in> set xs. \<not> p x)"
  by (simp add: findIndex_def findIndexFrom_none)

lemma findIndex_range:
  "findIndex p xs = - 1 \<or> (0 \<le> findIndex p xs \<and> findIndex p xs < int (length xs))"
  using findIndexFrom_range [of 0 p xs] by (simp add: findIndex_def)

lemma findIndex_first:
  "findIndex p xs \<noteq> - 1 \<Longrightarrow>
     p (xs ! nat (findIndex p xs)) \<and> (\<forall>m < nat (findIndex p xs). \<not> p (xs ! m))"
  using findIndexFrom_first [of 0 p xs] by (simp add: findIndex_def)

lemma leidinggevendeIndex_none:
  "(leidinggevendeIndex hs = - 1) = (Str ''Leidinggevende'' \<notin> set hs)"
  by (auto simp: leidinggevendeIndex_def findIndex_none strictEquals_Str)

lemma parttimeIndex_none:
  "(parttimeIndex hs = - 1) = (Str ''Parttime (%)'' \<notin> set hs)"
  by (auto simp: parttimeIndex_def findIndex_none strictEquals_Str)

lemma formattedData_missing:
  "(formattedData hs rows = Inl MissingColumns) =
     (Str ''Leidinggevende'' \<notin> set hs \<or> Str ''Parttime (%)'' \<notin> set hs)"
  by (auto simp: formattedData_def Let_def leidinggevendeIndex_none parttimeIndex_none)

lemma formattedData_cases:
  "formattedData hs rows = Inl MissingColumns \<or>
   formattedData hs rows =
     Inr (map (toEmployee (leidinggevendeIndex hs) (parttimeIndex hs) (aanwezigIndex hs)) rows)"
  by (simp add: formattedData_def Let_def)

section \<open>Presence classification\<close>

text \<open>
  Claim C1. The classification used by the aggregator is the specification's
  \<open>classifyPresence\<close> on every cell value that the specification's rules cover: a boolean
  classifies as itself, a number as present exactly when it is not zero, a string as
  present exactly when its lower-cased, trimmed form is one of ja, yes, y, true, 1, and
  \<open>undefined\<close> and \<open>null\<close> as absent. The rules cover every value but a Date object.
\<close>

theorem isPresent_is_classifyPresence:
  "classifyPresence v = (case v of DateV d \<Rightarrow> None | _ \<Rightarrow> Some (isPresent v))"
  by (cases v)
     (auto simp: classifyPresence_def isPresent_def arrayIncludes_def presentWords_def
                 recognizedTruthy_def trim_def toLowerCase_def)

theorem isPresent_is_classifyPresence_witness:
  "classifyPresence (Str ''YES '') = Some True \<and> isPresent (Str ''YES '')"
proof -
  have "classifyPresence (Str ''YES '') = Some True" by code_simp
  with isPresent_is_classifyPresence [of "Str ''YES ''"] show ?thesis by simp
qed

text \<open>
  Claim C2. The three consumers of the participation flag do not agree on every cell
  value. For the text \<open>ja\<close> followed by a space the aggregator counts the record as
  present and the label is Yes, but the row is highlighted as non-present, because
  \<open>isPresentClassName\<close> does not trim. For the number 2 the aggregator counts the record
  as present and the row is not highlighted, but the label is No, because
  \<open>formatPresentDisplay\<close> accepts only \<open>true\<close> and \<open>1\<close>. For a Date the aggregator counts
  the record as absent and the label is No, but the row is not highlighted.
\<close>

theorem presence_consumers_disagree:
  "isPresent (Str ''ja '') \<and> formatPresentDisplay (Str ''ja '') = ''Yes''
     \<and> isPresentClassName (Str ''ja '') = ''bg-red-200''
   \<and> isPresent (Num (Finite 2)) \<and> isPresentClassName (Num (Finite 2)) = []
     \<and> formatPresentDisplay (Num (Finite 2)) = ''No''
   \<and> \<not> isPresent (DateV (Date 0)) \<and> formatPresentDisplay (DateV (Date 0)) = ''No''
     \<and> isPresentClassName (DateV (Date 0)) = []"
  by code_simp

section \<open>The percentage sum\<close>

text \<open>
  Claim C3. A record whose percentage is a non-numeric text does not contribute 0 to the
  running sum: the text is truthy, \<open>parseFloat\<close> turns it into \<open>NaN\<close>, and \<open>NaN\<close> is
  added. Adding \<open>abc\<close> to a sum of 50 gives \<open>NaN\<close>; in a workbook with the percentages
  \<open>abc\<close> and 50 for Alice, her two records are counted, her sum is \<open>NaN\<close> and her
  average is the text \<open>NaN\<close>.
\<close>

theorem non_numeric_percentage_poisons_sum:
  "addPartTime (Str ''abc'') (TotalNum (Finite 50)) = TotalNum NaN
   \<and> map (\<lambda>(k, g). (k, totalEmployees g, totalPartTimePercentage g, avgPartTimePercentage g))
        (stats (processFile exampleFormatting initialSession nonNumericSheet))
     = [(''Alice'', 2, TotalNum NaN, Str ''NaN'')]"
  by code_simp

section \<open>The required columns\<close>

lemma processFile_error_cases:
  "error (processFile fmt s sh) = Some MissingColumns \<Longrightarrow>
     formattedData (headers sh) (drop 1 (jsonData sh)) = Inl MissingColumns"
  using formattedData_cases [of "headers sh" "drop 1 (jsonData sh)"]
  by (auto simp: processFile_def Let_def split: sum.splits prod.splits option.splits)

lemma processFile_missing:
  "formattedData (headers sh) (drop 1 (jsonData sh)) = Inl MissingColumns \<Longrightarrow>
     processFile fmt s sh = s\<lparr>loading := False, error := Some MissingColumns\<rparr>"
  by (simp add: processFile_def Let_def)

text \<open>
  Claim C4. \<open>processFile\<close> ends with the MissingColumns error exactly when no header is
  equal to \<open>Leidinggevende\<close> or no header is equal to \<open>Parttime (%)\<close>, wherever the
  headers stand. On that error the normalizer has produced no record, and the records and
  the manager statistics of the session are the ones it held before the call.
\<close>

theorem missing_columns_iff:
  "(error (processFile fmt s sh) = Some MissingColumns)
     = (Str ''Leidinggevende'' \<notin> set (headers sh) \<or> Str ''Parttime (%)'' \<notin> set (headers sh))
   \<and> (error (processFile fmt s sh) = Some MissingColumns \<longrightarrow>
        formattedData (headers sh) (drop 1 (jsonData sh)) = Inl MissingColumns
        \<and> data (processFile fmt s sh) = data s
        \<and> stats (processFile fmt s sh) = stats s)"
proof -
  have a: "error (processFile fmt s sh) = Some MissingColumns \<Longrightarrow>
             formattedData (headers sh) (drop 1 (jsonData sh)) = Inl MissingColumns"
    by (rule processFile_error_cases)
  have b: "formattedData (headers sh) (drop 1 (jsonData sh)) = Inl MissingColumns \<Longrightarrow>
             error (processFile fmt s sh) = Some MissingColumns
             \<and> data (processFile fmt s sh) = data s \<and> stats (processFile fmt s sh) = stats s"
    by (simp add: processFile_missing)
  from a b show ?thesis
    using formattedData_missing [of "headers sh" "drop 1 (jsonData sh)"] by blast
qed

theorem missing_columns_iff_witness:
  "error (processFile exampleFormatting initialSession
            \<lparr>headers = employeesHeader, jsonData = [employeesHeader]\<rparr>) = Some MissingColumns
   \<and> data (processFile exampleFormatting initialSession
             \<lparr>headers = employeesHeader, jsonData = [employeesHeader]\<rparr>) = []
   \<and> stats (processFile exampleFormatting initialSession
              \<lparr>headers = employeesHeader, jsonData = [employeesHeader]\<rparr>) = []"
proof -
  have "Str ''Leidinggevende'' \<notin> set (headers \<lparr>headers = employeesHeader, jsonData = [employeesHeader]\<rparr>)"
    by (simp add: employeesHeader_def)
  then show ?thesis
    using missing_columns_iff [of exampleFormatting initialSession
        "\<lparr>headers = employeesHeader, jsonData = [employeesHeader]\<rparr>"]
    by (simp add: initialSession_def)
qed

section \<open>Re-importing the exported workbook\<close>

lemma download_firstSheet:
  "downloadExcelWithHighlighting s = Some wb \<Longrightarrow> headers (readBack wb) = employeesHeader"
  by (auto simp: downloadExcelWithHighlighting_def readBack_def firstSheet_def Let_def
           split: if_splits)

lemma employeesHeader_rejected: "formattedData employeesHeader rows = Inl MissingColumns"
  by (simp add: formattedData_missing employeesHeader_def)

text \<open>
  Claim C5, as the code has it. The exported workbook does not pass through the pipeline
  again: its first sheet is headed Name, Function, PO, Part-time %, Present, so every
  sheet decoded with that header row, whatever its data rows, is rejected with the
  MissingColumns error, and the re-import produces no record and leaves the records and
  statistics of the session as they were.
\<close>

theorem reimport_is_rejected:
  "downloadExcelWithHighlighting s = Some wb \<Longrightarrow> headers sh = headers (readBack wb) \<Longrightarrow>
     formattedData (headers sh) rows = Inl MissingColumns
     \<and> error (processFile fmt s' sh) = Some MissingColumns
     \<and> data (processFile fmt s' sh) = data s'
     \<and> stats (processFile fmt s' sh) = stats s'"
proof -
  assume d: "downloadExcelWithHighlighting s = Some wb"
    and h: "headers sh = headers (readBack wb)"
  from d h have hs: "headers sh = employeesHeader" by (simp add: download_firstSheet)
  then have "formattedData (headers sh) (drop 1 (jsonData sh)) = Inl MissingColumns"
    by (simp add: employeesHeader_rejected)
  then have "processFile fmt s' sh = s'\<lparr>loading := False, error := Some MissingColumns\<rparr>"
    by (rule processFile_missing)
  with hs show ?thesis by (simp add: employeesHeader_rejected)
qed

theorem reimport_is_rejected_witness:
  "downloadExcelWithHighlighting aliceSession \<noteq> None
   \<and> error (processFile exampleFormatting initialSession
              (readBack (the (downloadExcelWithHighlighting aliceSession)))) = Some MissingColumns
   \<and> data (processFile exampleFormatting initialSession
              (readBack (the (downloadExcelWithHighlighting aliceSession)))) = []"
proof -
  have "downloadExcelWithHighlighting aliceSession \<noteq> None" by code_simp
  then obtain wb where wb: "downloadExcelWithHighlighting aliceSession = Some wb" by blast
  from reimport_is_rejected [OF wb refl, of "[]" exampleFormatting initialSession] wb
  show ?thesis by (simp add: initialSession_def)
qed

text \<open>
  The round trip fails on the workbook of section 8: it is accepted and gives two records
  for Alice, one present and one absent; the export is written; read back, its header row
  is the export's own, the normalizer answers MissingColumns, and a fresh session holds
  no record after the re-import.
\<close>

theorem round_trip_counterexample:
  "map manager (data aliceSession) = [Str ''Alice'', Str ''Alice'']
   \<and> map (\<lambda>e. isPresent (present e)) (data aliceSession) = [True, False]
   \<and> downloadExcelWithHighlighting aliceSession \<noteq> None
   \<and> headers (readBack (the (downloadExcelWithHighlighting aliceSession))) = employeesHeader
   \<and> formattedData (headers (readBack (the (downloadExcelWithHighlighting aliceSession))))
        (drop 1 (jsonData (readBack (the (downloadExcelWithHighlighting aliceSession)))))
      = Inl MissingColumns
   \<and> data (processFile exampleFormatting initialSession
             (readBack (the (downloadExcelWithHighlighting aliceSession)))) = []"
  by code_simp

section \<open>The participation column\<close>

lemma isParticipationHeader_iff:
  "isParticipationHeader h = (h \<in> {Str ''Aanwezig'', Str ''Present'', Str ''Participation''})"
  by (auto simp: isParticipationHeader_def strictEquals_Str)

text \<open>
  Claim C6, as the code has it. The participation column is the leftmost column whose
  header is equal to \<open>Aanwezig\<close>, \<open>Present\<close> or \<open>Participation\<close>: the index is \<open>-1\<close>
  exactly when no header is one of the three names, and otherwise it is a position of the
  header list that holds one of the three names while no position before it does. The
  three names have no order of preference.
\<close>

theorem participation_column_leftmost:
  "(aanwezigIndex hs = - 1)
     = (\<forall>h \<in> set hs. h \<notin> {Str ''Aanwezig'', Str ''Present'', Str ''Participation''})
   \<and> (aanwezigIndex hs \<noteq> - 1 \<longrightarrow>
        0 \<le> aanwezigIndex hs \<and> aanwezigIndex hs < int (length hs)
        \<and> hs ! nat (aanwezigIndex hs) \<in> {Str ''Aanwezig'', Str ''Present'', Str ''Participation''}
        \<and> (\<forall>m < nat (aanwezigIndex hs).
              hs ! m \<notin> {Str ''Aanwezig'', Str ''Present'', Str ''Participation''}))"
proof -
  have none: "(aanwezigIndex hs = - 1)
     = (\<forall>h \<in> set hs. h \<notin> {Str ''Aanwezig'', Str ''Present'', Str ''Participation''})"
    unfolding aanwezigIndex_def findIndex_none isParticipationHeader_iff ..
  have some: "aanwezigIndex hs \<noteq> - 1 \<Longrightarrow>
        0 \<le> aanwezigIndex hs \<and> aanwezigIndex hs < int (length hs)
        \<and> hs ! nat (aanwezigIndex hs) \<in> {Str ''Aanwezig'', Str ''Present'', Str ''Participation''}
        \<and> (\<forall>m < nat (aanwezigIndex hs).
              hs ! m \<notin> {Str ''Aanwezig'', Str ''Present'', Str ''Participation''})"
    using findIndex_range [of isParticipationHeader hs]
          findIndex_first [of isParticipationHeader hs]
    unfolding aanwezigIndex_def isParticipationHeader_iff by blast
  from none some show ?thesis by blast
qed

theorem participation_column_leftmost_witness:
  "aanwezigIndex [Str ''Name'', Str ''Present'', Str ''Aanwezig''] = 1
   \<and> [Str ''Name'', Str ''Present'', Str ''Aanwezig''] ! 1 = Str ''Present''
   \<and> [Str ''Name'', Str ''Present'', Str ''Aanwezig''] ! 0 \<noteq> Str ''Aanwezig''"
proof -
  have i: "aanwezigIndex [Str ''Name'', Str ''Present'', Str ''Aanwezig''] = 1" by code_simp
  with participation_column_leftmost [of "[Str ''Name'', Str ''Present'', Str ''Aanwezig'']"]
  show ?thesis by simp
qed

text \<open>
  The priority order fails on a header list that holds all three names with
  \<open>Participation\<close> first: the column chosen is the one headed \<open>Participation\<close>, at
  position 2, and the record takes \<open>nee\<close> from it although the column headed \<open>Aanwezig\<close>
  holds \<open>ja\<close>.
\<close>

theorem participation_column_counterexample:
  "aanwezigIndex [Str ''Leidinggevende'', Str ''Parttime (%)'', Str ''Participation'',
                  Str ''Present'', Str ''Aanwezig''] = 2
   \<and> formattedData [Str ''Leidinggevende'', Str ''Parttime (%)'', Str ''Participation'',
                    Str ''Present'', Str ''Aanwezig'']
        [[Str ''Alice'', Num (Finite 50), Str ''nee'', Str ''no'', Str ''ja'']]
      = Inr [\<lparr> id' = Str ''Alice'', name = Num (Finite 50), function' = Str ''nee'',
               employmentType = Str ''no'', employeeType = Str ''ja'',
               startDate = NoDate, endDate = NoDate, employer = Undefined,
               manager = Str ''Alice'', partTimePercentage = Num (Finite 50),
               present = Str ''nee'' \<rparr>]"
  by code_simp

section \<open>One record per row\<close>

lemma processFile_accepted:
  "formattedData (headers sh) (drop 1 (jsonData sh)) = Inr fd \<Longrightarrow>
     processFile fmt s sh =
       (case managerStats fmt (objectPrototypeTotal s) fd of
          (Some x, agg) \<Rightarrow>
            s\<lparr>loading := False, error := Some ProcessingFailed,
               objectPrototypeTotal := prototypeTotal agg\<rparr>
        | (None, agg) \<Rightarrow>
            s\<lparr>data := fd, stats := calculateAverages fmt (groups agg),
               loading := False, activeTab := Structure, error := None,
               objectPrototypeTotal := prototypeTotal agg\<rparr>)"
  by (simp add: processFile_def Let_def split: prod.splits option.splits)

lemma processFile_accepted_data:
  "formattedData (headers sh) (drop 1 (jsonData sh)) = Inr fd \<Longrightarrow>
     error (processFile fmt s sh) = None \<Longrightarrow> data (processFile fmt s sh) = fd"
  by (simp add: processFile_accepted split: prod.splits option.splits)

lemma formattedData_accepted:
  "Str ''Leidinggevende'' \<in> set hs \<Longrightarrow> Str ''Parttime (%)'' \<in> set hs \<Longrightarrow>
     formattedData hs rows =
       Inr (map (toEmployee (leidinggevendeIndex hs) (parttimeIndex hs) (aanwezigIndex hs)) rows)"
  using formattedData_cases [of hs rows] formattedData_missing [of hs rows] by simp

text \<open>
  Claim C8. For every workbook with both required headers, the normalizer returns a list
  of records that is exactly as long as the list of data rows (the rows after the header
  row), whatever the rows hold; MissingColumns is not raised, and when \<open>processFile\<close>
  ends without an error that list is the session's data.
\<close>

theorem one_record_per_row:
  "Str ''Leidinggevende'' \<in> set (headers sh) \<Longrightarrow> Str ''Parttime (%)'' \<in> set (headers sh) \<Longrightarrow>
     (\<exists>fd. formattedData (headers sh) (drop 1 (jsonData sh)) = Inr fd
           \<and> length fd = length (drop 1 (jsonData sh))
           \<and> (error (processFile fmt s sh) = None \<longrightarrow> data (processFile fmt s sh) = fd))
     \<and> error (processFile fmt s sh) \<noteq> Some MissingColumns"
proof -
  assume l: "Str ''Leidinggevende'' \<in> set (headers sh)"
    and p: "Str ''Parttime (%)'' \<in> set (headers sh)"
  let ?rows = "drop 1 (jsonData sh)"
  let ?fd = "map (toEmployee (leidinggevendeIndex (headers sh)) (parttimeIndex (headers sh))
                    (aanwezigIndex (headers sh))) ?rows"
  from l p have fd: "formattedData (headers sh) ?rows = Inr ?fd"
    by (rule formattedData_accepted)
  have len: "length ?fd = length ?rows" by (simp only: length_map)
  have st: "error (processFile fmt s sh) = None \<longrightarrow> data (processFile fmt s sh) = ?fd"
    using processFile_accepted_data [OF fd] by blast
  have ne: "error (processFile fmt s sh) \<noteq> Some MissingColumns"
  proof
    assume "error (processFile fmt s sh) = Some MissingColumns"
    then have "formattedData (headers sh) ?rows = Inl MissingColumns"
      by (rule processFile_error_cases)
    with fd show False by simp
  qed
  from fd len st have "\<exists>fd. formattedData (headers sh) ?rows = Inr fd
           \<and> length fd = length ?rows
           \<and> (error (processFile fmt s sh) = None \<longrightarrow> data (processFile fmt s sh) = fd)"
    by (intro exI [of _ ?fd] conjI)
  from this ne show ?thesis by (rule conjI)
qed

theorem one_record_per_row_witness:
  "length (data aliceSession) = 2 \<and> length (drop 1 (jsonData aliceSheet)) = 2
   \<and> error aliceSession = None"
proof -
  have l: "Str ''Leidinggevende'' \<in> set (headers aliceSheet)" by code_simp
  have p: "Str ''Parttime (%)'' \<in> set (headers aliceSheet)" by code_simp
  have e: "error (processFile exampleFormatting initialSession aliceSheet) = None" by code_simp
  have n: "length (drop 1 (jsonData aliceSheet)) = 2" by code_simp
  from one_record_per_row [OF l p, of exampleFormatting initialSession] e n
  show ?thesis by (auto simp: aliceSession_def)
qed

section \<open>The present field\<close>

lemma present_toEmployee:
  "present (toEmployee l p a row) =
     (if a \<noteq> - 1 \<and> cell row a \<noteq> Undefined then cell row a else Str ''nee'')"
  by (cases "cell row a") (auto simp: toEmployee_def Let_def)

text \<open>
  Claim C10. For every data row of an accepted workbook, the record's present field is
  the cell of the located participation column when that cell is not \<open>undefined\<close>, and
  the text \<open>nee\<close> when it is \<open>undefined\<close>, be it that no participation column exists or
  that the row has no cell in it.
\<close>

theorem present_field_default:
  "formattedData hs rows = Inr fd \<Longrightarrow> i < length rows \<Longrightarrow>
     present (fd ! i) =
       (if aanwezigIndex hs \<noteq> - 1 \<and> cell (rows ! i) (aanwezigIndex hs) \<noteq> Undefined
        then cell (rows ! i) (aanwezigIndex hs) else Str ''nee'')"
proof -
  assume f: "formattedData hs rows = Inr fd" and i: "i < length rows"
  from f formattedData_cases [of hs rows]
  have "fd = map (toEmployee (leidinggevendeIndex hs) (parttimeIndex hs) (aanwezigIndex hs)) rows"
    by simp
  with i show ?thesis by (simp add: present_toEmployee)
qed

theorem present_field_default_witness:
  "\<exists>fd. formattedData [Str ''Leidinggevende'', Str ''Parttime (%)'', Str ''Aanwezig'']
           [[Str ''Alice'', Num (Finite 50), Bool True], [Str ''Alice'', Num (Finite 80)]] = Inr fd
        \<and> present (fd ! 0) = Bool True \<and> present (fd ! 1) = Str ''nee''"
proof -
  let ?hs = "[Str ''Leidinggevende'', Str ''Parttime (%)'', Str ''Aanwezig'']"
  let ?rows = "[[Str ''Alice'', Num (Finite 50), Bool True], [Str ''Alice'', Num (Finite 80)]]"
  have "Str ''Leidinggevende'' \<in> set ?hs" and "Str ''Parttime (%)'' \<in> set ?hs" by simp_all
  then obtain fd where fd: "formattedData ?hs ?rows = Inr fd"
    using formattedData_accepted [of ?hs ?rows] by blast
  have a: "aanwezigIndex ?hs = 2" by code_simp
  have c0: "cell (?rows ! 0) 2 = Bool True" by code_simp
  have c1: "cell (?rows ! 1) 2 = Undefined" by code_simp
  from present_field_default [OF fd, of 0] a c0 have p0: "present (fd ! 0) = Bool True" by simp
  from present_field_default [OF fd, of 1] a c1 have p1: "present (fd ! 1) = Str ''nee''" by simp
  from fd p0 p1 show ?thesis by blast
qed

section \<open>Manager groups\<close>

lemma set_update_cases:
  "(k', v') \<in> set (AList.update k v al) \<Longrightarrow> (k' = k \<and> v' = v) \<or> (k', v') \<in> set al"
  by (induction al) (auto split: if_splits)

lemma tally_total: "totalEmployees (tally e g) = totalEmployees g + 1"
  by (simp add: tally_def Let_def)

lemma tally_present:
  "presentEmployees (tally e g) = presentEmployees g + (if isPresent (present e) then 1 else 0)"
  by (simp add: tally_def Let_def)

lemma tally_absent:
  "absentEmployees (tally e g) = absentEmployees g + (if isPresent (present e) then 0 else 1)"
  by (simp add: tally_def Let_def)

lemma tally_sum_total:
  "totalPartTimePercentage (tally e g) = addPartTime (partTimePercentage e) (totalPartTimePercentage g)"
  by (simp add: tally_def Let_def)

lemma foldEmployee_groups:
  "foldEmployee fmt st e = Inr st' \<Longrightarrow> (k, g) \<in> set (groups st') \<Longrightarrow>
     (k, g) \<in> set (groups st)
     \<or> (truthy (manager e) \<and> k = toPropertyKey fmt (manager e)
        \<and> (\<exists>g0. g = tally e g0 \<and> ((k, g0) \<in> set (groups st) \<or> g0 = newGroup)))"
proof -
  assume f: "foldEmployee fmt st e = Inr st'" and m: "(k, g) \<in> set (groups st')"
  show ?thesis
  proof (cases "truthy (manager e)")
    case False
    with f have "st' = st" by (simp add: foldEmployee_def)
    with m show ?thesis by simp
  next
    case True
    define key where "key = toPropertyKey fmt (manager e)"
    show ?thesis
    proof (cases "map_of (groups st) key")
      case (Some g0)
      with f True have "groups st' = AList.update key (tally e g0) (groups st)"
        by (auto simp: foldEmployee_def Let_def key_def)
      with m have "(k = key \<and> g = tally e g0) \<or> (k, g) \<in> set (groups st)"
        by (auto dest: set_update_cases)
      moreover from Some have "(key, g0) \<in> set (groups st)" by (rule map_of_SomeD)
      ultimately show ?thesis using True by (auto simp: key_def)
    next
      case None
      with f True have "groups st' = groups st \<or> groups st' = groups st @ [(key, tally e newGroup)]"
        by (auto simp: foldEmployee_def Let_def key_def split: if_splits)
      with m True show ?thesis by (auto simp: key_def)
    qed
  qed
qed

lemma forEachEmployee_groups:
  "(k, g) \<in> set (groups (snd (forEachEmployee fmt st es))) \<Longrightarrow>
     \<forall>kg \<in> set (groups st). 
        presentEmployees (snd kg) + absentEmployees (snd kg) = totalEmployees (snd kg)
        \<and> 0 \<le> presentEmployees (snd kg) \<and> 0 \<le> absentEmployees (snd kg)
        \<and> 1 \<le> totalEmployees (snd kg) \<Longrightarrow>
     presentEmployees g + absentEmployees g = totalEmployees g
     \<and> 0 \<le> presentEmployees g \<and> 0 \<le> absentEmployees g \<and> 1 \<le> totalEmployees g"
proof (induction es arbitrary: st)
  case Nil
  then show ?case by auto
next
  case (Cons e es)
  show ?case
  proof (cases "foldEmployee fmt st e")
    case (Inl x)
    with Cons.prems show ?thesis by auto
  next
    case (Inr st')
    have inv: "\<forall>kg \<in> set (groups st'). 
        presentEmployees (snd kg) + absentEmployees (snd kg) = totalEmployees (snd kg)
        \<and> 0 \<le> presentEmployees (snd kg) \<and> 0 \<le> absentEmployees (snd kg)
        \<and> 1 \<le> totalEmployees (snd kg)"
    proof
      fix kg assume "kg \<in> set (groups st')"
      then have "(fst kg, snd kg) \<in> set (groups st')" by simp
      from foldEmployee_groups [OF Inr this] Cons.prems(2)
      show "presentEmployees (snd kg) + absentEmployees (snd kg) = totalEmployees (snd kg)
        \<and> 0 \<le> presentEmployees (snd kg) \<and> 0 \<le> absentEmployees (snd kg)
        \<and> 1 \<le> totalEmployees (snd kg)"
        by (auto simp: tally_total tally_present tally_absent newGroup_def)
    qed
    from Cons.prems(1) Inr have "(k, g) \<in> set (groups (snd (forEachEmployee fmt st' es)))"
      by simp
    from Cons.IH [OF this inv] show ?thesis .
  qed
qed

lemma forEachEmployee_keys:
  "(k, g) \<in> set (groups (snd (forEachEmployee fmt st es))) \<Longrightarrow>
     k \<in> fst ` set (groups st)
     \<or> (\<exists>e \<in> set es. truthy (manager e) \<and> toPropertyKey fmt (manager e) = k)"
proof (induction es arbitrary: st)
  case Nil
  then show ?case by force
next
  case (Cons e es)
  show ?case
  proof (cases "foldEmployee fmt st e")
    case (Inl x)
    with Cons.prems show ?thesis by force
  next
    case (Inr st')
    with Cons.prems have "(k, g) \<in> set (groups (snd (forEachEmployee fmt st' es)))" by simp
    from Cons.IH [OF this] show ?thesis
    proof
      assume "k \<in> fst ` set (groups st')"
      then obtain g' where "(k, g') \<in> set (groups st')" by auto
      from foldEmployee_groups [OF Inr this] show ?thesis by force
    next
      assume "\<exists>e \<in> set es. truthy (manager e) \<and> toPropertyKey fmt (manager e) = k"
      then show ?thesis by auto
    qed
  qed
qed

lemma calculateAverages_member:
  "(k, g) \<in> set (calculateAverages fmt gs) \<Longrightarrow> \<exists>g0. (k, g0) \<in> set gs \<and> g = withAverage fmt g0"
  by (auto simp: calculateAverages_def)

lemma withAverage_counters:
  "totalEmployees (withAverage fmt g) = totalEmployees g"
  "presentEmployees (withAverage fmt g) = presentEmployees g"
  "absentEmployees (withAverage fmt g) = absentEmployees g"
  "totalPartTimePercentage (withAverage fmt g) = totalPartTimePercentage g"
  by (simp_all add: withAverage_def)

lemma managerStats_counters:
  "(k, g) \<in> set (groups (snd (managerStats fmt proto fd))) \<Longrightarrow>
     presentEmployees g + absentEmployees g = totalEmployees g
     \<and> 0 \<le> presentEmployees g \<and> 0 \<le> absentEmployees g \<and> 1 \<le> totalEmployees g"
  unfolding managerStats_def by (erule forEachEmployee_groups) simp

lemma managerStats_keys:
  "(k, g) \<in> set (groups (snd (managerStats fmt proto fd))) \<Longrightarrow>
     \<exists>e \<in> set fd. truthy (manager e) \<and> toPropertyKey fmt (manager e) = k"
  unfolding managerStats_def by (drule forEachEmployee_keys) simp

text \<open>
  Claim C7. After every step of the fold (after any number \<open>n\<close> of records) and in the
  statistics it ends with, every manager group has
  \<open>presentEmployees + absentEmployees = totalEmployees\<close>, and the three counters are
  integers that are not negative; folding one more record into a group adds one to
  \<open>totalEmployees\<close> and one to exactly one of the other two counters.
\<close>

theorem counters_balance:
  "(k, g) \<in> set (groups (snd (managerStats fmt proto (take n fd))))
             \<union> set (calculateAverages fmt (groups (snd (managerStats fmt proto fd)))) \<Longrightarrow>
     presentEmployees g + absentEmployees g = totalEmployees g
     \<and> 0 \<le> presentEmployees g \<and> 0 \<le> absentEmployees g \<and> 0 \<le> totalEmployees g
     \<and> totalEmployees (tally e g) = totalEmployees g + 1
     \<and> (presentEmployees (tally e g), absentEmployees (tally e g))
         = (if isPresent (present e) then (presentEmployees g + 1, absentEmployees g)
            else (presentEmployees g, absentEmployees g + 1))"
proof -
  assume "(k, g) \<in> set (groups (snd (managerStats fmt proto (take n fd))))
             \<union> set (calculateAverages fmt (groups (snd (managerStats fmt proto fd))))"
  then have "presentEmployees g + absentEmployees g = totalEmployees g
     \<and> 0 \<le> presentEmployees g \<and> 0 \<le> absentEmployees g \<and> 1 \<le> totalEmployees g"
  proof
    assume "(k, g) \<in> set (groups (snd (managerStats fmt proto (take n fd))))"
    then show ?thesis by (rule managerStats_counters)
  next
    assume "(k, g) \<in> set (calculateAverages fmt (groups (snd (managerStats fmt proto fd))))"
    then obtain g0 where g0: "(k, g0) \<in> set (groups (snd (managerStats fmt proto fd)))"
      and g: "g = withAverage fmt g0"
      by (blast dest: calculateAverages_member)
    from managerStats_counters [OF g0] g show ?thesis by (simp add: withAverage_counters)
  qed
  then show ?thesis by (simp add: tally_total tally_present tally_absent)
qed

theorem counters_balance_witness:
  "(''Alice'', \<lparr>totalEmployees = 1, presentEmployees = 1, absentEmployees = 0,
                 totalPartTimePercentage = TotalNum (Finite 50),
                 avgPartTimePercentage = Num (Finite 0)\<rparr>)
     \<in> set (groups (snd (managerStats exampleFormatting TotalUndefined (take 1 (data aliceSession)))))
   \<and> presentEmployees \<lparr>totalEmployees = 1, presentEmployees = 1, absentEmployees = 0,
                 totalPartTimePercentage = TotalNum (Finite 50),
                 avgPartTimePercentage = Num (Finite 0)\<rparr>
       + absentEmployees \<lparr>totalEmployees = 1, presentEmployees = 1, absentEmployees = 0,
                 totalPartTimePercentage = TotalNum (Finite 50),
                 avgPartTimePercentage = Num (Finite 0)\<rparr> = 1"
proof -
  let ?g = "\<lparr>totalEmployees = 1, presentEmployees = 1, absentEmployees = 0,
                 totalPartTimePercentage = TotalNum (Finite 50),
                 avgPartTimePercentage = Num (Finite 0)\<rparr>"
  have gs: "groups (snd (managerStats exampleFormatting TotalUndefined (take 1 (data aliceSession))))
              = [(''Alice'', ?g)]"
    by code_simp
  then have m: "(''Alice'', ?g) \<in> set (groups (snd (managerStats exampleFormatting TotalUndefined
                    (take 1 (data aliceSession)))))
                 \<union> set (calculateAverages exampleFormatting (groups (snd (managerStats
                    exampleFormatting TotalUndefined (data aliceSession)))))"
    by simp
  from counters_balance [OF m] gs show ?thesis by simp
qed

lemma processFile_ok:
  "error (processFile fmt s sh) = None \<Longrightarrow>
     \<exists>fd agg. formattedData (headers sh) (drop 1 (jsonData sh)) = Inr fd
       \<and> managerStats fmt (objectPrototypeTotal s) fd = (None, agg)
       \<and> data (processFile fmt s sh) = fd
       \<and> stats (processFile fmt s sh) = calculateAverages fmt (groups agg)"
proof -
  assume e: "error (processFile fmt s sh) = None"
  show ?thesis
  proof (cases "formattedData (headers sh) (drop 1 (jsonData sh))")
    case (Inl err)
    with e show ?thesis by (simp add: processFile_def Let_def)
  next
    case (Inr fd)
    obtain r agg where ms: "managerStats fmt (objectPrototypeTotal s) fd = (r, agg)"
      by (cases "managerStats fmt (objectPrototypeTotal s) fd")
    from e Inr ms have r: "r = None" by (cases r) (simp_all add: processFile_accepted)
    with Inr ms show ?thesis by (simp add: processFile_accepted)
  qed
qed

text \<open>
  Claim C9. When \<open>processFile\<close> ends without error, every manager key of the statistics
  is the key of a record that was folded in, its \<open>totalEmployees\<close> is at least 1, and
  its average is the two-decimal text of the sum divided by that count, computed after
  the fold: the divisor is never zero, so for a finite sum the quotient is the finite
  number \<open>sum / totalEmployees\<close>.
\<close>

theorem average_divisor_positive:
  "error (processFile fmt s sh) = None \<Longrightarrow> (k, g) \<in> set (stats (processFile fmt s sh)) \<Longrightarrow>
     1 \<le> totalEmployees g
     \<and> (\<exists>e \<in> set (data (processFile fmt s sh)).
           truthy (manager e) \<and> toPropertyKey fmt (manager e) = k)
     \<and> avgPartTimePercentage g
         = Str (toFixed2 fmt (divideByCount (totalToNumber (totalPartTimePercentage g))
                                            (totalEmployees g)))
     \<and> (\<forall>a. totalPartTimePercentage g = TotalNum (Finite a) \<longrightarrow>
           avgPartTimePercentage g = Str (toFixed2 fmt (Finite (a / of_int (totalEmployees g)))))"
proof -
  assume e: "error (processFile fmt s sh) = None"
    and m: "(k, g) \<in> set (stats (processFile fmt s sh))"
  from processFile_ok [OF e] obtain fd agg where
    ms: "managerStats fmt (objectPrototypeTotal s) fd = (None, agg)"
    and d: "data (processFile fmt s sh) = fd"
    and st: "stats (processFile fmt s sh) = calculateAverages fmt (groups agg)"
    by blast
  from m st obtain g0 where g0: "(k, g0) \<in> set (groups agg)" and g: "g = withAverage fmt g0"
    by (auto dest: calculateAverages_member)
  from g0 ms have g0': "(k, g0) \<in> set (groups (snd (managerStats fmt (objectPrototypeTotal s) fd)))"
    by simp
  from managerStats_counters [OF g0'] have pos: "1 \<le> totalEmployees g0" by simp
  from managerStats_keys [OF g0'] d
  have key: "\<exists>e \<in> set (data (processFile fmt s sh)).
           truthy (manager e) \<and> toPropertyKey fmt (manager e) = k" by simp
  have avg: "avgPartTimePercentage g
         = Str (toFixed2 fmt (divideByCount (totalToNumber (totalPartTimePercentage g))
                                            (totalEmployees g)))"
    by (simp add: g withAverage_def)
  from pos have nz: "totalEmployees g \<noteq> 0" by (simp add: g withAverage_counters)
  have fin: "\<forall>a. totalPartTimePercentage g = TotalNum (Finite a) \<longrightarrow>
           avgPartTimePercentage g = Str (toFixed2 fmt (Finite (a / of_int (totalEmployees g))))"
    using avg nz by simp
  from pos key avg fin show ?thesis by (simp add: g withAverage_counters)
qed

theorem average_divisor_positive_witness:
  "error aliceSession = None
   \<and> (''Alice'', \<lparr>totalEmployees = 2, presentEmployees = 1, absentEmployees = 1,
                    totalPartTimePercentage = TotalNum (Finite 150),
                    avgPartTimePercentage = Str ''75.00''\<rparr>) \<in> set (stats aliceSession)
   \<and> fixedTwo (Finite (150 / of_int 2)) = ''75.00''"
proof -
  let ?g = "\<lparr>totalEmployees = 2, presentEmployees = 1, absentEmployees = 1,
                    totalPartTimePercentage = TotalNum (Finite 150),
                    avgPartTimePercentage = Str ''75.00''\<rparr>"
  have e: "error (processFile exampleFormatting initialSession aliceSheet) = None" by code_simp
  have st: "stats (processFile exampleFormatting initialSession aliceSheet) = [(''Alice'', ?g)]"
    by code_simp
  then have m: "(''Alice'', ?g) \<in> set (stats (processFile exampleFormatting initialSession aliceSheet))"
    by simp
  from average_divisor_positive [OF e m] e m show ?thesis
    by (simp add: aliceSession_def exampleFormatting_def)
qed

end
